theory Spec2Isabelle
  imports Complex_Main "HOL-Library.Word"
begin

section \<open>JavaScript values\<close>

text \<open>
  A JavaScript string is a sequence of UTF-16 code units; the model keeps the code units
  as natural numbers. ASCII literals of the source are written with \<open>ascii\<close>, the
  Chinese literals as their code units (every character of the word list is in the basic
  plane, so one code unit each).

  \<open>null\<close> and \<open>undefined\<close> are \<open>None\<close> of an option type. Reading an array
  beyond its end gives \<open>undefined\<close> and throws nothing; reading a property of
  \<open>undefined\<close> throws a \<open>TypeError\<close>.

  JavaScript numbers are modelled by \<open>real\<close> (coordinates, \<open>Math.random()\<close>) and by
  \<open>int\<close> (the score, the points): rounding of doubles is not modelled, and a division
  by zero, which gives \<open>Infinity\<close> or \<open>NaN\<close> in JavaScript, has no counterpart, so the
  statements on coordinates assume a bounding rectangle of positive size.
\<close>

type_synonym jsstring = "nat list"

definition ascii :: "string \<Rightarrow> jsstring" where
  "ascii s = map of_char s"

datatype jserror = TypeError

text \<open>
  How a method call ends: normally, or by an exception that leaves the method; both carry
  the state reached, since a throw does not undo the assignments made before it.
\<close>

datatype 's completion = Normal 's | Throw jserror 's

text \<open>\<open>xs[i]\<close> for an array \<open>xs\<close> and an integral index.\<close>

definition js_at :: "'a list \<Rightarrow> int \<Rightarrow> 'a option" where
  "js_at xs i = (if 0 \<le> i \<and> i < int (length xs) then Some (xs ! nat i) else None)"

text \<open>\<open>!v\<close> for a value that is a string, \<open>null\<close> or \<open>undefined\<close>: the empty string is falsy too.\<close>

definition falsy :: "jsstring option \<Rightarrow> bool" where
  "falsy v = (case v of None \<Rightarrow> True | Some s \<Rightarrow> s = [])"

section \<open>DrawingCanvas (src/components/DrawingCanvas.js)\<close>

text \<open>
  The source holds two variants of the class: the chalkboard variant (dark background,
  800 x 600, positions scaled by the CSS ratio, emptiness with a tolerance) and the
  white-background variant (600 x 400, positions by offset only, emptiness by exact
  comparison). An object carries its variant, as a JavaScript object carries its class, and
  each method dispatches on it.
\<close>

datatype variant = Chalkboard | WhiteBackground

record DOMRect =
  rect_left :: real
  rect_top :: real
  rect_width :: real
  rect_height :: real

record MouseEvent =
  clientX :: real
  clientY :: real

record Position =
  pos_x :: real
  pos_y :: real

text \<open>
  One record holds the component's own fields (\<open>isDrawing\<close>, \<open>currentColor\<close>,
  \<open>brushSize\<close>), the canvas element (\<open>canvas_width\<close>, \<open>canvas_height\<close>, and the
  rectangle its \<open>getBoundingClientRect()\<close> returns) and the 2D context (styles, the current
  path as a list of subpaths, and the bitmap). \<open>imageData\<close> is the array
  \<open>ctx.getImageData(0, 0, canvas.width, canvas.height).data\<close>: four bytes (R, G, B, A)
  per pixel, row by row.
\<close>

record DrawingCanvas =
  variant :: variant
  canvas_width :: nat
  canvas_height :: nat
  boundingClientRect :: DOMRect
  lineCap :: jsstring
  lineJoin :: jsstring
  strokeStyle :: jsstring
  lineWidth :: real
  fillStyle :: jsstring
  path :: "Position list list"
  imageData :: "8 word list"
  isDrawing :: bool
  currentColor :: jsstring
  brushSize :: real

text \<open>
  The browser's rasteriser is not part of the repository: what \<open>fillRect\<close> and \<open>stroke\<close>
  write into the bitmap is a parameter of the model.
\<close>

record Browser =
  fillRect_bitmap :: "DrawingCanvas \<Rightarrow> real \<Rightarrow> real \<Rightarrow> real \<Rightarrow> real \<Rightarrow> 8 word list"
  stroke_bitmap :: "DrawingCanvas \<Rightarrow> 8 word list"

definition beginPath :: "DrawingCanvas \<Rightarrow> DrawingCanvas" where
  "beginPath c = c\<lparr>path := []\<rparr>"

definition moveTo :: "Position \<Rightarrow> DrawingCanvas \<Rightarrow> DrawingCanvas" where
  "moveTo p c = c\<lparr>path := path c @ [[p]]\<rparr>"

definition lineTo :: "Position \<Rightarrow> DrawingCanvas \<Rightarrow> DrawingCanvas" where
  "lineTo p c =
     (if path c = [] then c\<lparr>path := [[p]]\<rparr>
      else c\<lparr>path := butlast (path c) @ [last (path c) @ [p]]\<rparr>)"

definition stroke :: "Browser \<Rightarrow> DrawingCanvas \<Rightarrow> DrawingCanvas" where
  "stroke B c = c\<lparr>imageData := stroke_bitmap B c\<rparr>"

definition fillRect :: "Browser \<Rightarrow> real \<Rightarrow> real \<Rightarrow> real \<Rightarrow> real \<Rightarrow> DrawingCanvas \<Rightarrow> DrawingCanvas" where
  "fillRect B x y w h c = c\<lparr>imageData := fillRect_bitmap B c x y w h\<rparr>"

text \<open>
  \<open>getPosition(e)\<close>. The chalkboard variant (lines 91-100) scales by the ratio of the
  pixel size to the displayed size; the white-background variant (lines 240-246) subtracts
  the offset only. Reading \<open>e.clientX\<close> of an undefined event throws.
\<close>

definition getPosition :: "DrawingCanvas \<Rightarrow> MouseEvent option \<Rightarrow> jserror + Position" where
  "getPosition c e =
     (let rect = boundingClientRect c in
      case variant c of
        Chalkboard \<Rightarrow>
          (let scaleX = real (canvas_width c) / rect_width rect;
               scaleY = real (canvas_height c) / rect_height rect
           in case e of
                None \<Rightarrow> Inl TypeError
              | Some ev \<Rightarrow>
                  Inr \<lparr>pos_x = (clientX ev - rect_left rect) * scaleX,
                       pos_y = (clientY ev - rect_top rect) * scaleY\<rparr>)
      | WhiteBackground \<Rightarrow>
          (case e of
             None \<Rightarrow> Inl TypeError
           | Some ev \<Rightarrow>
               Inr \<lparr>pos_x = clientX ev - rect_left rect,
                    pos_y = clientY ev - rect_top rect\<rparr>))"

definition startDrawing :: "MouseEvent option \<Rightarrow> DrawingCanvas \<Rightarrow> DrawingCanvas completion" where
  "startDrawing e c =
     (let c1 = c\<lparr>isDrawing := True\<rparr> in
      case getPosition c1 e of
        Inl err \<Rightarrow> Throw err c1
      | Inr pos \<Rightarrow> Normal (moveTo pos (beginPath c1)))"

text \<open>\<open>draw(e)\<close>, the same text in both variants (lines 69-77 and 219-227).\<close>

definition draw :: "Browser \<Rightarrow> MouseEvent option \<Rightarrow> DrawingCanvas \<Rightarrow> DrawingCanvas completion" where
  "draw B e c =
     (if \<not> isDrawing c then Normal c
      else case getPosition c e of
        Inl err \<Rightarrow> Throw err c
      | Inr pos \<Rightarrow>
          Normal (stroke B (lineTo pos (c\<lparr>strokeStyle := currentColor c,
                                            lineWidth := brushSize c\<rparr>))))"

definition stopDrawing :: "DrawingCanvas \<Rightarrow> DrawingCanvas" where
  "stopDrawing c = beginPath (c\<lparr>isDrawing := False\<rparr>)"

definition setColor :: "jsstring \<Rightarrow> DrawingCanvas \<Rightarrow> DrawingCanvas" where
  "setColor color c = c\<lparr>currentColor := color\<rparr>"

definition setBrushSize :: "real \<Rightarrow> DrawingCanvas \<Rightarrow> DrawingCanvas" where
  "setBrushSize sz c = c\<lparr>brushSize := sz\<rparr>"

definition clear :: "Browser \<Rightarrow> DrawingCanvas \<Rightarrow> DrawingCanvas" where
  "clear B c =
     (let c1 = c\<lparr>fillStyle := (case variant c of
                                   Chalkboard \<Rightarrow> ascii ''#2d3436''
                                 | WhiteBackground \<Rightarrow> ascii ''#ffffff'')\<rparr>
      in fillRect B 0 0 (real (canvas_width c1)) (real (canvas_height c1)) c1)"

definition getImageData :: "DrawingCanvas \<Rightarrow> 8 word list" where
  "getImageData c = imageData c"

text \<open>
  \<open>Math.abs(d - bg) > 5\<close> for an array element \<open>d\<close>: with \<open>d\<close> undefined the difference
  is \<open>NaN\<close> and the comparison is false.
\<close>

definition abs_diff_gt5 :: "8 word option \<Rightarrow> int \<Rightarrow> bool" where
  "abs_diff_gt5 d bg = (case d of None \<Rightarrow> False | Some v \<Rightarrow> \<bar>uint v - bg\<bar> > 5)"

text \<open>\<open>d !== 255\<close>: true for an undefined \<open>d\<close>.\<close>

definition not_255 :: "8 word option \<Rightarrow> bool" where
  "not_255 d = (case d of None \<Rightarrow> True | Some v \<Rightarrow> v \<noteq> 255)"

text \<open>The loop of the chalkboard \<open>isEmpty\<close> (lines 139-148), from index \<open>i\<close> on.\<close>

function isEmpty_chalkboard_loop :: "8 word list \<Rightarrow> nat \<Rightarrow> bool" where
  "isEmpty_chalkboard_loop data i =
     (if i < length data then
        (if abs_diff_gt5 (js_at data (int i)) 45 \<or>
            abs_diff_gt5 (js_at data (int i + 1)) 52 \<or>
            abs_diff_gt5 (js_at data (int i + 2)) 54
         then False
         else isEmpty_chalkboard_loop data (i + 4))
      else True)"
  by pat_completeness auto
termination
  by (relation "measure (\<lambda>(data, i). length data - i)") auto

declare isEmpty_chalkboard_loop.simps [simp del]

text \<open>The loop of the white-background \<open>isEmpty\<close> (lines 285-290).\<close>

function isEmpty_white_loop :: "8 word list \<Rightarrow> nat \<Rightarrow> bool" where
  "isEmpty_white_loop data i =
     (if i < length data then
        (if not_255 (js_at data (int i)) \<or>
            not_255 (js_at data (int i + 1)) \<or>
            not_255 (js_at data (int i + 2))
         then False
         else isEmpty_white_loop data (i + 4))
      else True)"
  by pat_completeness auto
termination
  by (relation "measure (\<lambda>(data, i). length data - i)") auto

declare isEmpty_white_loop.simps [simp del]

definition isEmpty :: "DrawingCanvas \<Rightarrow> bool" where
  "isEmpty c =
     (let data = getImageData c in
      case variant c of
        Chalkboard \<Rightarrow> isEmpty_chalkboard_loop data 0
      | WhiteBackground \<Rightarrow> isEmpty_white_loop data 0)"

text \<open>
  \<open>setupCanvas()\<close> and the constructor. The constructor takes the canvas element, here
  the record with the element's and the context's fields; \<open>bindEvents\<close> registers the
  handlers and changes no field.
\<close>

definition setupCanvas :: "Browser \<Rightarrow> DrawingCanvas \<Rightarrow> DrawingCanvas" where
  "setupCanvas B c =
     (let c1 = (case variant c of
                  Chalkboard \<Rightarrow> c\<lparr>canvas_width := 800, canvas_height := 600\<rparr>
                | WhiteBackground \<Rightarrow> c\<lparr>canvas_width := 600, canvas_height := 400\<rparr>);
          c2 = c1\<lparr>lineCap := ascii ''round'', lineJoin := ascii ''round''\<rparr>
      in clear B c2)"

definition DrawingCanvas_new :: "Browser \<Rightarrow> DrawingCanvas \<Rightarrow> DrawingCanvas" where
  "DrawingCanvas_new B element =
     setupCanvas B (element\<lparr>isDrawing := False,
        currentColor := (case variant element of
                           Chalkboard \<Rightarrow> ascii ''#ffffff''
                         | WhiteBackground \<Rightarrow> ascii ''#000000''),
        brushSize := 3\<rparr>)"

section \<open>GameManager (src/game/GameManager.js)\<close>

record WordList =
  easy :: "jsstring list"
  medium :: "jsstring list"
  hard :: "jsstring list"

record evaluation =
  success :: bool
  points :: int
  message :: jsstring

text \<open>
  What the component does to its environment: \<open>alert\<close>, \<open>console.log\<close>, and
  assignments to elements of the page, found by their id. The page is the game's own, in
  which the five elements exist. A template literal is kept as its parts: the literal chunks
  and the substituted values.
\<close>

datatype jsvalue = Str jsstring | Num int | Nullish

datatype part = Lit jsstring | Subst jsvalue

datatype effect =
    Alert jsstring
  | ConsoleLog jsstring jsvalue
  | SetTextContent jsstring jsvalue
  | SetClassName jsstring jsstring
  | SetInnerHTML jsstring "part list"
  | ClassListAdd jsstring jsstring
  | ClassListRemove jsstring jsstring

definition value_of :: "jsstring option \<Rightarrow> jsvalue" where
  "value_of v = (case v of None \<Rightarrow> Nullish | Some s \<Rightarrow> Str s)"

text \<open>The fields of the class, as the constructor sets them (lines 7-13).\<close>

record GameManager =
  canvas :: DrawingCanvas
  currentWord :: "jsstring option"
  score :: int
  wordList :: WordList
  usedWords :: "jsstring option set"

text \<open>
  The object in its environment: \<open>random\<close> is the sequence of numbers that
  \<open>Math.random()\<close> returns, \<open>draws\<close> counts the calls made so far, and \<open>effects\<close>
  lists what the component has done to the page, the oldest first.
\<close>

record world = GameManager +
  random :: "nat \<Rightarrow> real"
  draws :: nat
  effects :: "effect list"

definition Math_random :: "world \<Rightarrow> real \<times> world" where
  "Math_random w = (random w (draws w), w\<lparr>draws := draws w + 1\<rparr>)"

definition emit :: "effect \<Rightarrow> world \<Rightarrow> world" where
  "emit e w = w\<lparr>effects := effects w @ [e]\<rparr>"

text \<open>\<open>initWordList()\<close> (lines 19-25), each word by its UTF-16 code units.\<close>

definition initWordList :: WordList where
  "initWordList =
     \<lparr>easy = [[0x592A, 0x9633], [0x6708, 0x4EAE], [0x661F, 0x661F], [0x623F, 0x5B50], [0x6811],
              [0x82B1], [0x732B], [0x72D7], [0x9C7C], [0x9E1F]],
      medium = [[0x6C7D, 0x8F66], [0x98DE, 0x673A], [0x81EA, 0x884C, 0x8F66], [0x7535, 0x8111],
                [0x624B, 0x673A], [0x4E66], [0x773C, 0x955C], [0x96E8, 0x4F1E], [0x7B11, 0x8138],
                [0x7231, 0x5FC3]],
      hard = [[0x5F69, 0x8679], [0x8774, 0x8776], [0x86CB, 0x7CD5], [0x706B, 0x7BAD],
              [0x57CE, 0x5821], [0x94A2, 0x7434], [0x8DB3, 0x7403], [0x751F, 0x65E5],
              [0x793C, 0x7269], [0x98CE, 0x8F66]]\<rparr>"

definition GameManager_new :: "DrawingCanvas \<Rightarrow> (nat \<Rightarrow> real) \<Rightarrow> nat \<Rightarrow> effect list \<Rightarrow> world" where
  "GameManager_new cv rnd n es =
     \<lparr>canvas = cv, currentWord = None, score = 0, wordList = initWordList, usedWords = {},
      random = rnd, draws = n, effects = es\<rparr>"

text \<open>
  \<open>getRandomWord()\<close> (lines 30-47). The method calls itself after clearing
  \<open>usedWords\<close>; a call that never returns is \<open>None\<close>.
\<close>

definition allWords :: "WordList \<Rightarrow> jsstring list" where
  "allWords l = easy l @ medium l @ hard l"

definition availableWords :: "world \<Rightarrow> jsstring list" where
  "availableWords w = filter (\<lambda>word. Some word \<notin> usedWords w) (allWords (wordList w))"

partial_function (option) getRandomWord :: "world \<Rightarrow> (jsstring option \<times> world) option" where
  "getRandomWord w =
     (if length (availableWords w) = 0 then getRandomWord (w\<lparr>usedWords := {}\<rparr>)
      else (case Math_random w of
              (r, w1) \<Rightarrow>
                (let word = js_at (availableWords w) \<lfloor>r * real (length (availableWords w))\<rfloor>
                 in Some (word, w1\<lparr>usedWords := insert word (usedWords w1)\<rparr>))))"

definition updateWordDisplay :: "world \<Rightarrow> world" where
  "updateWordDisplay w =
     emit (SetClassName (ascii ''wordDisplay'')
             (if falsy (currentWord w) then ascii ''word'' else ascii ''word active''))
       (emit (SetTextContent (ascii ''wordDisplay'')
                (if falsy (currentWord w)
                 then Str [0x70B9, 0x51FB, 0x5F00, 0x59CB, 0x6E38, 0x620F]
                 else value_of (currentWord w))) w)"

definition updateScore :: "world \<Rightarrow> world" where
  "updateScore w = emit (SetTextContent (ascii ''scoreDisplay'') (Num (score w))) w"

text \<open>
  \<open>showResult(evaluation)\<close> (lines 135-148): the title chosen by \<open>success\<close>, the template of
  \<open>innerHTML\<close> with its three substitutions, and the class \<open>hidden\<close> removed.
\<close>

definition result_title :: "bool \<Rightarrow> jsstring" where
  "result_title ok =
     (if ok then [0xD83C, 0xDF89, 0x0020, 0x606D, 0x559C, 0xFF01]
      else [0xD83D, 0xDE05, 0x0020, 0x518D, 0x8BD5, 0x8BD5, 0x5427, 0xFF01])"

definition result_html :: "evaluation \<Rightarrow> jsstring option \<Rightarrow> part list" where
  "result_html ev word =
     [Lit ([0x000A] @ ascii ''      <p>''),
      Subst (Str (message ev)),
      Lit (ascii ''</p>'' @ [0x000A] @ ascii ''      <p>'' @ [0x8BCD, 0x6C47, 0x662F] @
           ascii '': <strong>''),
      Subst (value_of word),
      Lit (ascii ''</strong></p>'' @ [0x000A] @ ascii ''      <p>'' @
           [0x83B7, 0x5F97, 0x5206, 0x6570] @ ascii '': <strong>''),
      Subst (Num (points ev)),
      Lit (ascii ''</strong> '' @ [0x5206] @ ascii ''</p>'' @ [0x000A] @ ascii ''    '')]"

definition showResult :: "evaluation \<Rightarrow> world \<Rightarrow> world" where
  "showResult ev w =
     emit (ClassListRemove (ascii ''resultArea'') (ascii ''hidden''))
       (emit (SetInnerHTML (ascii ''resultMessage'') (result_html ev (currentWord w)))
          (emit (SetTextContent (ascii ''resultTitle'') (Str (result_title (success ev)))) w))"

definition hideResult :: "world \<Rightarrow> world" where
  "hideResult w = emit (ClassListAdd (ascii ''resultArea'') (ascii ''hidden'')) w"

text \<open>\<open>nextWord()\<close> (lines 52-58).\<close>

definition nextWord :: "Browser \<Rightarrow> world \<Rightarrow> world option" where
  "nextWord B w =
     (case getRandomWord w of
        None \<Rightarrow> None
      | Some (word, w1) \<Rightarrow>
          (let w2 = w1\<lparr>currentWord := word\<rparr>;
               w3 = w2\<lparr>canvas := clear B (canvas w2)\<rparr>;
               w4 = updateWordDisplay w3;
               w5 = hideResult w4
           in Some (emit (ConsoleLog [0xD83D, 0xDCDD, 0x0020, 0x65B0, 0x8BCD, 0x6C47, 0x003A]
                            (value_of (currentWord w5))) w5)))"

text \<open>
  \<open>evaluateDrawing()\<close> (lines 87-98): one of the four entries of \<open>scores\<close>, or
  \<open>undefined\<close> for an index outside the array.
\<close>

definition scores :: "evaluation list" where
  "scores =
     [\<lparr>success = True, points = 10,
       message = [0x753B, 0x5F97, 0x592A, 0x68D2, 0x4E86, 0xFF01, 0x4E00, 0x773C, 0x5C31, 0x8BA4,
                  0x51FA, 0x6765, 0x4E86, 0xFF01]\<rparr>,
      \<lparr>success = True, points = 7,
       message = [0x753B, 0x5F97, 0x4E0D, 0x9519, 0xFF0C, 0x80FD, 0x770B, 0x51FA, 0x662F, 0x4EC0,
                  0x4E48, 0xFF01]\<rparr>,
      \<lparr>success = True, points = 5,
       message = [0x8FD8, 0x53EF, 0x4EE5, 0xFF0C, 0x52C9, 0x5F3A, 0x80FD, 0x8BA4, 0x51FA, 0x6765,
                  0xFF01]\<rparr>,
      \<lparr>success = False, points = 2,
       message = [0x55EF, 0x002E, 0x002E, 0x002E, 0x8FD9, 0x662F, 0x4EC0, 0x4E48, 0x6765, 0x7740,
                  0xFF1F]\<rparr>]"

definition evaluateDrawing :: "world \<Rightarrow> evaluation option \<times> world" where
  "evaluateDrawing w =
     (case Math_random w of
        (r, w1) \<Rightarrow> (js_at scores \<lfloor>r * real (length scores)\<rfloor>, w1))"

text \<open>
  The two messages shown by \<open>alert\<close>: "click next to start the game first" (no active
  round) and "the board is empty, draw something first" (empty canvas).
\<close>

definition msg_NoActiveRound :: jsstring where
  "msg_NoActiveRound =
     [0x8BF7, 0x5148, 0x70B9, 0x51FB, 0x0022, 0x4E0B, 0x4E00, 0x9898, 0x0022, 0x5F00, 0x59CB,
      0x6E38, 0x620F, 0xFF01]"

definition msg_EmptyCanvas :: jsstring where
  "msg_EmptyCanvas =
     [0x753B, 0x677F, 0x662F, 0x7A7A, 0x7684, 0xFF0C, 0x8BF7, 0x5148, 0x753B, 0x70B9, 0x4EC0,
      0x4E48, 0x5427, 0xFF01]"

text \<open>
  \<open>submitAnswer()\<close> (lines 63-81). \<open>evaluation.points\<close> throws when \<open>evaluation\<close> is
  undefined.
\<close>

definition submitAnswer :: "world \<Rightarrow> world completion" where
  "submitAnswer w =
     (if falsy (currentWord w) then Normal (emit (Alert msg_NoActiveRound) w)
      else if isEmpty (canvas w) then Normal (emit (Alert msg_EmptyCanvas) w)
      else (case evaluateDrawing w of
              (None, w1) \<Rightarrow> Throw TypeError w1
            | (Some ev, w1) \<Rightarrow>
                (let w2 = w1\<lparr>score := score w1 + points ev\<rparr>;
                     w3 = updateScore w2
                 in Normal (showResult ev w3))))"

text \<open>
  \<open>skipWord()\<close> (lines 103-114). In the template of the message \<open>currentWord\<close> is a
  non-empty string, the guard having excluded the rest.
\<close>

definition answer_prefix :: jsstring where
  "answer_prefix = [0x6B63, 0x786E, 0x7B54, 0x6848, 0x662F, 0x003A, 0x0020]"

definition skipWord :: "world \<Rightarrow> world" where
  "skipWord w =
     (if falsy (currentWord w) then emit (Alert msg_NoActiveRound) w
      else showResult \<lparr>success = False, points = 0,
                        message = answer_prefix @ (case currentWord w of
                                                     None \<Rightarrow> ascii ''null''
                                                   | Some s \<Rightarrow> s)\<rparr> w)"

section \<open>Sequences of calls\<close>

text \<open>\<open>n\<close> successive calls of \<open>getRandomWord()\<close>, with the words they return.\<close>

fun getRandomWord_times :: "nat \<Rightarrow> world \<Rightarrow> (jsstring option list \<times> world) option" where
  "getRandomWord_times 0 w = Some ([], w)"
| "getRandomWord_times (Suc n) w =
     (case getRandomWord w of
        None \<Rightarrow> None
      | Some (word, w1) \<Rightarrow>
          (case getRandomWord_times n w1 of
             None \<Rightarrow> None
           | Some (ws, w2) \<Rightarrow> Some (word # ws, w2)))"

text \<open>
  A call of a method of the GameManager from outside (main.js binds \<open>nextWord\<close>,
  \<open>submitAnswer\<close> and \<open>skipWord\<close> to the buttons), or what the pointer handlers do to
  the canvas between two calls. An exception that leaves a handler ends that handler only:
  the next event finds the state the throw left.
\<close>

datatype operation =
    NextWord
  | SubmitAnswer
  | SkipWord
  | GetRandomWord
  | EvaluateDrawing
  | UpdateWordDisplay
  | UpdateScore
  | ShowResult evaluation
  | HideResult
  | CanvasEvent "DrawingCanvas \<Rightarrow> DrawingCanvas"

definition after :: "'s completion \<Rightarrow> 's" where
  "after k = (case k of Normal s \<Rightarrow> s | Throw e s \<Rightarrow> s)"

fun step :: "Browser \<Rightarrow> operation \<Rightarrow> world \<Rightarrow> world option" where
  "step B NextWord w = nextWord B w"
| "step B SubmitAnswer w = Some (after (submitAnswer w))"
| "step B SkipWord w = Some (skipWord w)"
| "step B GetRandomWord w = map_option snd (getRandomWord w)"
| "step B EvaluateDrawing w = Some (snd (evaluateDrawing w))"
| "step B UpdateWordDisplay w = Some (updateWordDisplay w)"
| "step B UpdateScore w = Some (updateScore w)"
| "step B (ShowResult ev) w = Some (showResult ev w)"
| "step B HideResult w = Some (hideResult w)"
| "step B (CanvasEvent f) w = Some (w\<lparr>canvas := f (canvas w)\<rparr>)"

fun run :: "Browser \<Rightarrow> operation list \<Rightarrow> world \<Rightarrow> world option" where
  "run B [] w = Some w"
| "run B (a # ops) w = (case step B a w of None \<Rightarrow> None | Some w1 \<Rightarrow> run B ops w1)"

text \<open>
  The points that the scoring function returns in the calls of \<open>submitAnswer()\<close> that
  pass both guards, in the order of the calls.
\<close>

definition passes_guards :: "world \<Rightarrow> bool" where
  "passes_guards w = (\<not> falsy (currentWord w) \<and> \<not> isEmpty (canvas w))"

fun returned_points :: "operation \<Rightarrow> world \<Rightarrow> int list" where
  "returned_points SubmitAnswer w =
     (if passes_guards w
      then (case fst (evaluateDrawing w) of None \<Rightarrow> [] | Some ev \<Rightarrow> [points ev])
      else [])"
| "returned_points a w = []"

fun awarded :: "Browser \<Rightarrow> operation list \<Rightarrow> world \<Rightarrow> int list" where
  "awarded B [] w = []"
| "awarded B (a # ops) w =
     returned_points a w @ (case step B a w of None \<Rightarrow> [] | Some w1 \<Rightarrow> awarded B ops w1)"

section \<open>Notions used in the statements\<close>

text \<open>
  The colour that \<open>clear()\<close> fills the canvas with (\<open>#2d3436\<close> and \<open>#ffffff\<close>), by
  its red, green and blue channels, and the tolerance of each variant of \<open>isEmpty()\<close>.
\<close>

definition background :: "variant \<Rightarrow> int \<times> int \<times> int" where
  "background v = (case v of Chalkboard \<Rightarrow> (45, 52, 54) | WhiteBackground \<Rightarrow> (255, 255, 255))"

definition tolerance :: "variant \<Rightarrow> int" where
  "tolerance v = (case v of Chalkboard \<Rightarrow> 5 | WhiteBackground \<Rightarrow> 0)"

text \<open>Every pixel of the buffer has its three colour channels within \<open>tol\<close> of the background.\<close>

definition pixels_within :: "int \<Rightarrow> DrawingCanvas \<Rightarrow> bool" where
  "pixels_within tol c =
     (\<forall>p < canvas_width c * canvas_height c.
        \<bar>uint (imageData c ! (4 * p)) - fst (background (variant c))\<bar> \<le> tol \<and>
        \<bar>uint (imageData c ! (4 * p + 1)) - fst (snd (background (variant c)))\<bar> \<le> tol \<and>
        \<bar>uint (imageData c ! (4 * p + 2)) - snd (snd (background (variant c)))\<bar> \<le> tol)"

text \<open>One round of each loop: the pixel at index \<open>i\<close> does not make \<open>isEmpty()\<close> return false.\<close>

definition ok_chalk :: "8 word list \<Rightarrow> nat \<Rightarrow> bool" where
  "ok_chalk data i = (\<not> (abs_diff_gt5 (js_at data (int i)) 45 \<or>
            abs_diff_gt5 (js_at data (int i + 1)) 52 \<or>
            abs_diff_gt5 (js_at data (int i + 2)) 54))"

definition ok_white :: "8 word list \<Rightarrow> nat \<Rightarrow> bool" where
  "ok_white data i = (\<not> (not_255 (js_at data (int i)) \<or>
            not_255 (js_at data (int i + 1)) \<or>
            not_255 (js_at data (int i + 2))))"

text \<open>The two transforms of the specification: scaled by the CSS ratio, and by offset only.\<close>

definition scaled_position :: "DrawingCanvas \<Rightarrow> MouseEvent \<Rightarrow> Position" where
  "scaled_position c e =
     \<lparr>pos_x = (clientX e - rect_left (boundingClientRect c)) *
               (real (canvas_width c) / rect_width (boundingClientRect c)),
      pos_y = (clientY e - rect_top (boundingClientRect c)) *
               (real (canvas_height c) / rect_height (boundingClientRect c))\<rparr>"

definition offset_position :: "DrawingCanvas \<Rightarrow> MouseEvent \<Rightarrow> Position" where
  "offset_position c e =
     \<lparr>pos_x = clientX e - rect_left (boundingClientRect c),
      pos_y = clientY e - rect_top (boundingClientRect c)\<rparr>"

text \<open>Concrete canvases, browsers and states, on which the theorems are evaluated.\<close>

definition canvas_of :: "variant \<Rightarrow> nat \<Rightarrow> nat \<Rightarrow> DOMRect \<Rightarrow> 8 word list \<Rightarrow> bool \<Rightarrow> DrawingCanvas" where
  "canvas_of v w h rect data drawing =
     \<lparr>variant = v, canvas_width = w, canvas_height = h, boundingClientRect = rect,
      lineCap = ascii ''round'', lineJoin = ascii ''round'', strokeStyle = ascii ''#000000'',
      lineWidth = 1, fillStyle = ascii ''#000000'', path = [], imageData = data,
      isDrawing = drawing, currentColor = ascii ''#ffffff'', brushSize = 3\<rparr>"

definition unit_rect :: DOMRect where
  "unit_rect = \<lparr>rect_left = 0, rect_top = 0, rect_width = 1, rect_height = 1\<rparr>"

definition half_rect :: DOMRect where
  "half_rect = \<lparr>rect_left = 0, rect_top = 0, rect_width = 300, rect_height = 200\<rparr>"

definition full_rect :: DOMRect where
  "full_rect = \<lparr>rect_left = 0, rect_top = 0, rect_width = 600, rect_height = 400\<rparr>"

definition shifted_half_rect :: DOMRect where
  "shifted_half_rect = \<lparr>rect_left = 25, rect_top = 25, rect_width = 400, rect_height = 300\<rparr>"

definition example_world :: "DrawingCanvas \<Rightarrow> jsstring option \<Rightarrow> real \<Rightarrow> world" where
  "example_world cv word r = (GameManager_new cv (\<lambda>_. r) 0 [])\<lparr>currentWord := word, score := 5\<rparr>"

definition blank_canvas :: DrawingCanvas where
  "blank_canvas = canvas_of Chalkboard 1 1 unit_rect [45, 52, 54, 255] False"

definition drawn_canvas :: DrawingCanvas where
  "drawn_canvas = canvas_of Chalkboard 1 1 unit_rect [255, 255, 255, 255] False"

definition scribbled_canvas :: DrawingCanvas where
  "scribbled_canvas = canvas_of WhiteBackground 1 1 unit_rect [0, 0, 0, 255] True"

definition exhausted_world :: world where
  "exhausted_world =
     (example_world blank_canvas None (1/2))\<lparr>usedWords := Some ` set (allWords initWordList)\<rparr>"

definition example_round :: "operation list" where
  "example_round =
     [SubmitAnswer, NextWord, SubmitAnswer,
      CanvasEvent (\<lambda>c. c\<lparr>imageData := [255, 255, 255, 255]\<rparr>), SubmitAnswer, SkipWord,
      EvaluateDrawing, SubmitAnswer]"

definition first_call_world :: world where
  "first_call_world = GameManager_new blank_canvas (\<lambda>i. if i = 0 then 0 else 1/2) 0 []"

definition second_call_world :: world where
  "second_call_world = first_call_world\<lparr>usedWords := {Some [0x592A, 0x9633]}, draws := 1\<rparr>"

definition test_browser :: Browser where
  "test_browser =
     \<lparr>fillRect_bitmap = (\<lambda>c x y w h.
          concat (replicate (canvas_width c * canvas_height c)
            (if fillStyle c = ascii ''#2d3436'' then [45, 52, 54, 255] else [255, 255, 255, 255]))),
      stroke_bitmap = (\<lambda>c. replicate (length (imageData c)) 255)\<rparr>"

section \<open>The drawing surface\<close>

lemma all_stride_split:
  "(\<forall>k. (i::nat) + 4 * k < n \<longrightarrow> P (i + 4 * k)) \<longleftrightarrow>
   ((i < n \<longrightarrow> P i) \<and> (\<forall>k. (i + 4) + 4 * k < n \<longrightarrow> P ((i + 4) + 4 * k)))"
proof
  assume L: "\<forall>k. i + 4 * k < n \<longrightarrow> P (i + 4 * k)"
  have "i < n \<longrightarrow> P i" using L [rule_format, of 0] by simp
  moreover have "\<forall>k. (i + 4) + 4 * k < n \<longrightarrow> P ((i + 4) + 4 * k)"
  proof (intro allI impI)
    fix k assume "(i + 4) + 4 * k < n"
    then show "P ((i + 4) + 4 * k)" using L [rule_format, of "Suc k"] by (simp add: add.assoc)
  qed
  ultimately show "(i < n \<longrightarrow> P i) \<and> (\<forall>k. (i + 4) + 4 * k < n \<longrightarrow> P ((i + 4) + 4 * k))" by blast
next
  assume R: "(i < n \<longrightarrow> P i) \<and> (\<forall>k. (i + 4) + 4 * k < n \<longrightarrow> P ((i + 4) + 4 * k))"
  show "\<forall>k. i + 4 * k < n \<longrightarrow> P (i + 4 * k)"
  proof (intro allI impI)
    fix k assume k: "i + 4 * k < n"
    show "P (i + 4 * k)"
    proof (cases k)
      case 0
      with k R show ?thesis by simp
    next
      case (Suc j)
      with k R [THEN conjunct2, rule_format, of j] show ?thesis by (simp add: add.assoc)
    qed
  qed
qed

lemma chalk_loop_iff:
  "isEmpty_chalkboard_loop data i \<longleftrightarrow> (\<forall>k. i + 4 * k < length data \<longrightarrow> ok_chalk data (i + 4 * k))"
proof (induction data i rule: isEmpty_chalkboard_loop.induct)
  case (1 data i)
  show ?case
  proof (cases "i < length data")
    case False
    then show ?thesis by (subst isEmpty_chalkboard_loop.simps) simp
  next
    case True
    show ?thesis
    proof (cases "ok_chalk data i")
      case False
      have "\<not> isEmpty_chalkboard_loop data i"
        using True False by (subst isEmpty_chalkboard_loop.simps) (simp add: ok_chalk_def)
      moreover have "\<not> (\<forall>k. i + 4 * k < length data \<longrightarrow> ok_chalk data (i + 4 * k))"
        using True False by (subst all_stride_split) simp
      ultimately show ?thesis by blast
    next
      case ok: True
      have "isEmpty_chalkboard_loop data i = isEmpty_chalkboard_loop data (i + 4)"
        using True ok by (subst isEmpty_chalkboard_loop.simps) (simp add: ok_chalk_def)
      also have "\<dots> \<longleftrightarrow> (\<forall>k. (i + 4) + 4 * k < length data \<longrightarrow> ok_chalk data ((i + 4) + 4 * k))"
        using "1.IH" True ok by (simp add: ok_chalk_def)
      also have "\<dots> \<longleftrightarrow> (\<forall>k. i + 4 * k < length data \<longrightarrow> ok_chalk data (i + 4 * k))"
        using True ok by (subst (2) all_stride_split) simp
      finally show ?thesis .
    qed
  qed
qed


lemma white_loop_iff:
  "isEmpty_white_loop data i \<longleftrightarrow> (\<forall>k. i + 4 * k < length data \<longrightarrow> ok_white data (i + 4 * k))"
proof (induction data i rule: isEmpty_white_loop.induct)
  case (1 data i)
  show ?case
  proof (cases "i < length data")
    case False
    then show ?thesis by (subst isEmpty_white_loop.simps) simp
  next
    case True
    show ?thesis
    proof (cases "ok_white data i")
      case False
      have "\<not> isEmpty_white_loop data i"
        using True False by (subst isEmpty_white_loop.simps) (simp add: ok_white_def)
      moreover have "\<not> (\<forall>k. i + 4 * k < length data \<longrightarrow> ok_white data (i + 4 * k))"
        using True False by (subst all_stride_split) simp
      ultimately show ?thesis by blast
    next
      case ok: True
      have "isEmpty_white_loop data i = isEmpty_white_loop data (i + 4)"
        using True ok by (subst isEmpty_white_loop.simps) (simp add: ok_white_def)
      also have "\<dots> \<longleftrightarrow> (\<forall>k. (i + 4) + 4 * k < length data \<longrightarrow> ok_white data ((i + 4) + 4 * k))"
        using "1.IH" True ok by (simp add: ok_white_def)
      also have "\<dots> \<longleftrightarrow> (\<forall>k. i + 4 * k < length data \<longrightarrow> ok_white data (i + 4 * k))"
        using True ok by (subst (2) all_stride_split) simp
      finally show ?thesis .
    qed
  qed
qed

lemma stride_multiple:
  "(\<forall>k. 0 + 4 * k < 4 * n \<longrightarrow> P (0 + 4 * k)) \<longleftrightarrow> (\<forall>p<n. P (4 * (p::nat)))"
  by simp

lemma js_at_nat: "i < length xs \<Longrightarrow> js_at xs (int i) = Some (xs ! i)"
  by (simp add: js_at_def)

lemma ok_chalk_in_range:
  assumes "4 * p + 3 < length data"
  shows "ok_chalk data (4 * p) \<longleftrightarrow>
     \<bar>uint (data ! (4 * p)) - 45\<bar> \<le> 5 \<and> \<bar>uint (data ! (4 * p + 1)) - 52\<bar> \<le> 5 \<and>
     \<bar>uint (data ! (4 * p + 2)) - 54\<bar> \<le> 5"
proof -
  have a: "js_at data (int (4 * p)) = Some (data ! (4 * p))"
    using assms by (intro js_at_nat) simp
  have "js_at data (int (4 * p + 1)) = Some (data ! (4 * p + 1))"
    using assms by (intro js_at_nat) simp
  then have b: "js_at data (int (4 * p) + 1) = Some (data ! (4 * p + 1))"
    by (simp add: add.commute)
  have "js_at data (int (4 * p + 2)) = Some (data ! (4 * p + 2))"
    using assms by (intro js_at_nat) simp
  then have c: "js_at data (int (4 * p) + 2) = Some (data ! (4 * p + 2))"
    by (simp add: add.commute)
  show ?thesis
    unfolding ok_chalk_def a b c by (simp add: abs_diff_gt5_def not_less)
qed

lemma ok_white_in_range:
  assumes "4 * p + 3 < length data"
  shows "ok_white data (4 * p) \<longleftrightarrow>
     data ! (4 * p) = 255 \<and> data ! (4 * p + 1) = 255 \<and> data ! (4 * p + 2) = 255"
proof -
  have a: "js_at data (int (4 * p)) = Some (data ! (4 * p))"
    using assms by (intro js_at_nat) simp
  have "js_at data (int (4 * p + 1)) = Some (data ! (4 * p + 1))"
    using assms by (intro js_at_nat) simp
  then have b: "js_at data (int (4 * p) + 1) = Some (data ! (4 * p + 1))"
    by (simp add: add.commute)
  have "js_at data (int (4 * p + 2)) = Some (data ! (4 * p + 2))"
    using assms by (intro js_at_nat) simp
  then have c: "js_at data (int (4 * p) + 2) = Some (data ! (4 * p + 2))"
    by (simp add: add.commute)
  show ?thesis
    unfolding ok_white_def a b c by (auto simp: not_255_def)
qed

lemma byte_is_255: "uint (v :: 8 word) = 255 \<longleftrightarrow> v = 255"
  by (simp add: word_uint_eq_iff)

lemma chalk_pixels:
  assumes len: "length (imageData c) = 4 * (canvas_width c * canvas_height c)"
    and v: "variant c = Chalkboard"
  shows "(\<forall>p < canvas_width c * canvas_height c. ok_chalk (imageData c) (4 * p)) \<longleftrightarrow> pixels_within 5 c"
proof -
  have "ok_chalk (imageData c) (4 * p) \<longleftrightarrow>
     \<bar>uint (imageData c ! (4 * p)) - 45\<bar> \<le> 5 \<and> \<bar>uint (imageData c ! (4 * p + 1)) - 52\<bar> \<le> 5 \<and>
     \<bar>uint (imageData c ! (4 * p + 2)) - 54\<bar> \<le> 5"
    if "p < canvas_width c * canvas_height c" for p
    using that len by (intro ok_chalk_in_range) simp
  then show ?thesis
    by (simp add: pixels_within_def background_def v)
qed

lemma white_pixels:
  assumes len: "length (imageData c) = 4 * (canvas_width c * canvas_height c)"
    and v: "variant c = WhiteBackground"
  shows "(\<forall>p < canvas_width c * canvas_height c. ok_white (imageData c) (4 * p)) \<longleftrightarrow> pixels_within 0 c"
proof -
  have "ok_white (imageData c) (4 * p) \<longleftrightarrow>
     imageData c ! (4 * p) = 255 \<and> imageData c ! (4 * p + 1) = 255 \<and> imageData c ! (4 * p + 2) = 255"
    if "p < canvas_width c * canvas_height c" for p
    using that len by (intro ok_white_in_range) simp
  then show ?thesis
    by (simp add: pixels_within_def background_def v byte_is_255)
qed

lemmas isEmpty_eval = isEmpty_def getImageData_def canvas_of_def js_at_def abs_diff_gt5_def
  not_255_def isEmpty_chalkboard_loop.simps isEmpty_white_loop.simps

lemma canvases: "isEmpty blank_canvas" "\<not> isEmpty drawn_canvas" "\<not> isEmpty scribbled_canvas"
  by (simp_all add: blank_canvas_def drawn_canvas_def scribbled_canvas_def isEmpty_eval)

lemmas world_eval = example_world_def GameManager_new_def falsy_def

text \<open>
  C3, as the code has it. For a buffer that holds the full canvas (four bytes per pixel),
  \<open>isEmpty()\<close> returns true if and only if every pixel has its red, green and blue
  channel within the variant's tolerance of the background colour: 5 in the chalkboard
  variant, against (45, 52, 54), so a deviation of exactly 5 reports empty and one of 6
  reports non-empty; 0 in the white-background variant, which compares with 255 exactly.
\<close>

theorem isEmpty_tolerance:
  assumes len: "length (imageData c) = 4 * (canvas_width c * canvas_height c)"
  shows "isEmpty c \<longleftrightarrow> pixels_within (tolerance (variant c)) c"
proof (cases "variant c")
  case Chalkboard
  have "isEmpty c \<longleftrightarrow> isEmpty_chalkboard_loop (imageData c) 0"
    using Chalkboard by (simp add: isEmpty_def getImageData_def)
  also have "\<dots> \<longleftrightarrow> (\<forall>k. 0 + 4 * k < length (imageData c) \<longrightarrow> ok_chalk (imageData c) (0 + 4 * k))"
    by (rule chalk_loop_iff)
  also have "\<dots> \<longleftrightarrow> (\<forall>p < canvas_width c * canvas_height c. ok_chalk (imageData c) (4 * p))"
    unfolding len by (rule stride_multiple)
  also have "\<dots> \<longleftrightarrow> pixels_within 5 c"
    using len Chalkboard by (rule chalk_pixels)
  finally show ?thesis using Chalkboard by (simp add: tolerance_def)
next
  case WhiteBackground
  have "isEmpty c \<longleftrightarrow> isEmpty_white_loop (imageData c) 0"
    using WhiteBackground by (simp add: isEmpty_def getImageData_def)
  also have "\<dots> \<longleftrightarrow> (\<forall>k. 0 + 4 * k < length (imageData c) \<longrightarrow> ok_white (imageData c) (0 + 4 * k))"
    by (rule white_loop_iff)
  also have "\<dots> \<longleftrightarrow> (\<forall>p < canvas_width c * canvas_height c. ok_white (imageData c) (4 * p))"
    unfolding len by (rule stride_multiple)
  also have "\<dots> \<longleftrightarrow> pixels_within 0 c"
    using len WhiteBackground by (rule white_pixels)
  finally show ?thesis using WhiteBackground by (simp add: tolerance_def)
qed

theorem isEmpty_tolerance_witness:
  "isEmpty (canvas_of Chalkboard 1 1 unit_rect [50, 47, 59, 255] False) \<and>
   \<not> isEmpty (canvas_of Chalkboard 1 1 unit_rect [51, 52, 54, 255] False) \<and>
   isEmpty (canvas_of WhiteBackground 1 1 unit_rect [255, 255, 255, 255] False) \<and>
   \<not> isEmpty (canvas_of WhiteBackground 1 1 unit_rect [254, 255, 255, 255] False)"
  using isEmpty_tolerance [of "canvas_of Chalkboard 1 1 unit_rect [50, 47, 59, 255] False"]
        isEmpty_tolerance [of "canvas_of Chalkboard 1 1 unit_rect [51, 52, 54, 255] False"]
        isEmpty_tolerance [of "canvas_of WhiteBackground 1 1 unit_rect [255, 255, 255, 255] False"]
        isEmpty_tolerance [of "canvas_of WhiteBackground 1 1 unit_rect [254, 255, 255, 255] False"]
  by (simp add: canvas_of_def pixels_within_def background_def tolerance_def)

text \<open>
  C3 as stated fails on the white-background variant: a single pixel (250, 250, 250) is
  within 5 of white on every channel, and \<open>isEmpty()\<close> returns false.
\<close>

theorem isEmpty_white_counterexample:
  "\<not> (isEmpty (canvas_of WhiteBackground 1 1 unit_rect [250, 250, 250, 255] False) \<longleftrightarrow>
      pixels_within 5 (canvas_of WhiteBackground 1 1 unit_rect [250, 250, 250, 255] False))"
  by (simp add: isEmpty_eval pixels_within_def background_def)

lemma offset_is_scaled_iff:
  assumes w: "0 < rect_width (boundingClientRect c)" and h: "0 < rect_height (boundingClientRect c)"
  shows "(\<forall>ev. offset_position c ev = scaled_position c ev) \<longleftrightarrow>
         (rect_width (boundingClientRect c) = real (canvas_width c) \<and>
          rect_height (boundingClientRect c) = real (canvas_height c))"
proof
  assume all: "\<forall>ev. offset_position c ev = scaled_position c ev"
  let ?ev = "\<lparr>clientX = rect_left (boundingClientRect c) + 1,
              clientY = rect_top (boundingClientRect c) + 1\<rparr>"
  have "offset_position c ?ev = scaled_position c ?ev" using all by blast
  then have "real (canvas_width c) / rect_width (boundingClientRect c) = 1"
    and "real (canvas_height c) / rect_height (boundingClientRect c) = 1"
    by (simp_all add: offset_position_def scaled_position_def)
  then show "rect_width (boundingClientRect c) = real (canvas_width c) \<and>
          rect_height (boundingClientRect c) = real (canvas_height c)"
    using w h by simp
next
  assume "rect_width (boundingClientRect c) = real (canvas_width c) \<and>
          rect_height (boundingClientRect c) = real (canvas_height c)"
  then show "\<forall>ev. offset_position c ev = scaled_position c ev"
    using w h by (simp add: offset_position_def scaled_position_def)
qed

text \<open>
  C7, as the code has it. For a bounding rectangle of positive width and height, the
  chalkboard variant's \<open>getPosition\<close> returns the scaled position
  \<open>((eventX - left) * (pixelWidth / width), (eventY - top) * (pixelHeight / height))\<close>;
  the white-background variant's returns \<open>(eventX - left, eventY - top)\<close>, which is
  the scaled position whenever the rectangle has the size of the pixel buffer, and is the
  scaled position for every event if and only if the rectangle has that size.
\<close>

theorem getPosition_variants:
  assumes "0 < rect_width (boundingClientRect c)" and "0 < rect_height (boundingClientRect c)"
  shows "(variant c = Chalkboard \<longrightarrow> getPosition c (Some e) = Inr (scaled_position c e)) \<and>
         (variant c = WhiteBackground \<longrightarrow>
            getPosition c (Some e) = Inr (offset_position c e) \<and>
            (rect_width (boundingClientRect c) = real (canvas_width c) \<and>
             rect_height (boundingClientRect c) = real (canvas_height c) \<longrightarrow>
               offset_position c e = scaled_position c e) \<and>
            ((\<forall>ev. getPosition c (Some ev) = Inr (scaled_position c ev)) \<longleftrightarrow>
             (rect_width (boundingClientRect c) = real (canvas_width c) \<and>
              rect_height (boundingClientRect c) = real (canvas_height c))))"
proof (intro conjI impI)
  assume "variant c = Chalkboard"
  then show "getPosition c (Some e) = Inr (scaled_position c e)"
    by (simp add: getPosition_def scaled_position_def Let_def)
next
  assume "variant c = WhiteBackground"
  then show "getPosition c (Some e) = Inr (offset_position c e)"
    by (simp add: getPosition_def offset_position_def Let_def)
next
  assume "variant c = WhiteBackground"
    and "rect_width (boundingClientRect c) = real (canvas_width c) \<and>
         rect_height (boundingClientRect c) = real (canvas_height c)"
  then show "offset_position c e = scaled_position c e"
    using offset_is_scaled_iff [OF assms] by blast
next
  assume v: "variant c = WhiteBackground"
  have "getPosition c (Some ev) = Inr (offset_position c ev)" for ev
    using v by (simp add: getPosition_def offset_position_def Let_def)
  then show "(\<forall>ev. getPosition c (Some ev) = Inr (scaled_position c ev)) \<longleftrightarrow>
             (rect_width (boundingClientRect c) = real (canvas_width c) \<and>
              rect_height (boundingClientRect c) = real (canvas_height c))"
    using offset_is_scaled_iff [OF assms] by simp
qed

theorem getPosition_variants_witness:
  "getPosition (canvas_of Chalkboard 800 600 shifted_half_rect [] False)
     (Some \<lparr>clientX = 125, clientY = 125\<rparr>) = Inr \<lparr>pos_x = 200, pos_y = 200\<rparr> \<and>
   getPosition (canvas_of WhiteBackground 600 400 full_rect [] False)
     (Some \<lparr>clientX = 150, clientY = 100\<rparr>) = Inr \<lparr>pos_x = 150, pos_y = 100\<rparr> \<and>
   scaled_position (canvas_of WhiteBackground 600 400 full_rect [] False)
     \<lparr>clientX = 150, clientY = 100\<rparr> = \<lparr>pos_x = 150, pos_y = 100\<rparr> \<and>
   \<not> (\<forall>ev. getPosition (canvas_of WhiteBackground 600 400 half_rect [] False) (Some ev) =
          Inr (scaled_position (canvas_of WhiteBackground 600 400 half_rect [] False) ev))"
  using getPosition_variants [of "canvas_of Chalkboard 800 600 shifted_half_rect [] False"
          "\<lparr>clientX = 125, clientY = 125\<rparr>"]
        getPosition_variants [of "canvas_of WhiteBackground 600 400 full_rect [] False"
          "\<lparr>clientX = 150, clientY = 100\<rparr>"]
        getPosition_variants [of "canvas_of WhiteBackground 600 400 half_rect [] False"
          "\<lparr>clientX = 0, clientY = 0\<rparr>"]
  by (simp add: canvas_of_def shifted_half_rect_def full_rect_def half_rect_def
        scaled_position_def offset_position_def)

text \<open>
  C7 as stated fails on the white-background variant: on a 600 x 400 canvas displayed at
  300 x 200, the event at (150, 100) gives (150, 100), not the scaled (300, 200).
\<close>

theorem getPosition_offset_counterexample:
  "getPosition (canvas_of WhiteBackground 600 400 half_rect [] False)
       (Some \<lparr>clientX = 150, clientY = 100\<rparr>) \<noteq>
   Inr (scaled_position (canvas_of WhiteBackground 600 400 half_rect [] False)
       \<lparr>clientX = 150, clientY = 100\<rparr>)"
  by (simp add: getPosition_def scaled_position_def canvas_of_def half_rect_def)

text \<open>
  C8. With \<open>isDrawing\<close> false, \<open>draw\<close> returns normally with the state it was given,
  whatever the event (an undefined one too), the browser and the variant: no pixel, no
  field and no context setting changes, and nothing is thrown.
\<close>

theorem draw_idle_noop: "\<not> isDrawing c \<Longrightarrow> draw B e c = Normal c"
  by (simp add: draw_def)

theorem draw_idle_noop_witness:
  "draw test_browser (Some \<lparr>clientX = 0, clientY = 0\<rparr>)
     (canvas_of Chalkboard 1 1 unit_rect [45, 52, 54, 255] False) =
     Normal (canvas_of Chalkboard 1 1 unit_rect [45, 52, 54, 255] False) \<and>
   draw test_browser None (canvas_of WhiteBackground 1 1 unit_rect [255, 255, 255, 255] False) =
     Normal (canvas_of WhiteBackground 1 1 unit_rect [255, 255, 255, 255] False) \<and>
   draw test_browser (Some \<lparr>clientX = 0, clientY = 0\<rparr>)
     (canvas_of Chalkboard 1 1 unit_rect [45, 52, 54, 255] True) \<noteq>
     Normal (canvas_of Chalkboard 1 1 unit_rect [45, 52, 54, 255] True)"
  using draw_idle_noop [of "canvas_of Chalkboard 1 1 unit_rect [45, 52, 54, 255] False"
          test_browser "Some \<lparr>clientX = 0, clientY = 0\<rparr>"]
        draw_idle_noop [of "canvas_of WhiteBackground 1 1 unit_rect [255, 255, 255, 255] False"
          test_browser None]
  by (simp add: canvas_of_def draw_def getPosition_def unit_rect_def lineTo_def stroke_def
        test_browser_def)

section \<open>Word selection\<close>

lemma floor_index:
  assumes "0 \<le> r" and "r < 1" and "0 < n"
  shows "0 \<le> \<lfloor>r * real n\<rfloor> \<and> \<lfloor>r * real n\<rfloor> < int n"
proof -
  have "0 \<le> r * real n" using assms by simp
  then have lo: "0 \<le> \<lfloor>r * real n\<rfloor>" by simp
  have "r * real n < 1 * real n" using assms by (intro mult_strict_right_mono) simp_all
  then have "r * real n < real_of_int (int n)" by simp
  then have "\<lfloor>r * real n\<rfloor> < int n" by (simp only: floor_less_iff)
  with lo show ?thesis by simp
qed

lemma js_at_in_range:
  assumes "0 \<le> i" and "i < int (length xs)"
  shows "js_at xs i = Some (xs ! nat i) \<and> xs ! nat i \<in> set xs"
  using assms by (simp add: js_at_def)

lemma getRandomWord_pick:
  assumes "availableWords w \<noteq> []"
  shows "getRandomWord w =
           Some (js_at (availableWords w) \<lfloor>random w (draws w) * real (length (availableWords w))\<rfloor>,
                 w\<lparr>usedWords := insert (js_at (availableWords w)
                        \<lfloor>random w (draws w) * real (length (availableWords w))\<rfloor>) (usedWords w),
                   draws := draws w + 1\<rparr>)"
  using assms by (subst getRandomWord.simps) (simp add: Math_random_def Let_def)

lemma getRandomWord_reset:
  assumes "availableWords w = []"
  shows "getRandomWord w = getRandomWord (w\<lparr>usedWords := {}\<rparr>)"
  using assms by (subst getRandomWord.simps) simp

lemma availableWords_reset: "availableWords (w\<lparr>usedWords := {}\<rparr>) = allWords (wordList w)"
  by (simp add: availableWords_def)


lemma getRandomWord_step:
  assumes avail: "availableWords w \<noteq> []"
    and r: "0 \<le> random w (draws w)" "random w (draws w) < 1"
  shows "\<exists>v. v \<in> set (availableWords w) \<and>
           getRandomWord w =
             Some (Some v, w\<lparr>usedWords := insert (Some v) (usedWords w), draws := draws w + 1\<rparr>)"
proof -
  let ?i = "\<lfloor>random w (draws w) * real (length (availableWords w))\<rfloor>"
  have "0 < length (availableWords w)" using avail by simp
  then have "0 \<le> ?i \<and> ?i < int (length (availableWords w))"
    using r by (intro floor_index)
  then have at: "js_at (availableWords w) ?i = Some (availableWords w ! nat ?i)"
    and mem: "availableWords w ! nat ?i \<in> set (availableWords w)"
    using js_at_in_range [of ?i "availableWords w"] by simp_all
  show ?thesis
    using mem getRandomWord_pick [OF avail] unfolding at by blast
qed

lemma length_filter_neq:
  assumes "distinct xs" and "v \<in> set xs"
  shows "length (filter (\<lambda>x. x \<noteq> v) xs) = length xs - 1"
proof -
  have "filter (\<lambda>x. x \<noteq> v) xs = removeAll v xs"
    by (induction xs) auto
  also have "\<dots> = remove1 v xs"
    using assms(1) by (simp add: distinct_remove1_removeAll)
  finally show ?thesis using assms(2) by (simp add: length_remove1)
qed

lemma availableWords_insert:
  "availableWords (w\<lparr>usedWords := insert (Some v) (usedWords w), draws := d\<rparr>) =
     filter (\<lambda>x. x \<noteq> v) (availableWords w)"
  by (simp add: availableWords_def conj_commute)

lemma getRandomWord_times_distinct:
  assumes "distinct (allWords (wordList w))"
    and "\<forall>i. 0 \<le> random w i \<and> random w i < 1"
    and "k \<le> length (availableWords w)"
  shows "\<exists>ws. getRandomWord_times k w =
             Some (map Some ws, w\<lparr>usedWords := usedWords w \<union> Some ` set ws, draws := draws w + k\<rparr>) \<and>
           distinct ws \<and> length ws = k \<and> set ws \<subseteq> set (availableWords w)"
  using assms
proof (induction k arbitrary: w)
  case 0
  then show ?case by simp
next
  case (Suc k)
  have dist: "distinct (availableWords w)"
    using Suc.prems(1) by (simp add: availableWords_def)
  have avail: "availableWords w \<noteq> []" using Suc.prems(3) by auto
  obtain v where v: "v \<in> set (availableWords w)"
    and call: "getRandomWord w =
             Some (Some v, w\<lparr>usedWords := insert (Some v) (usedWords w), draws := draws w + 1\<rparr>)"
    using getRandomWord_step [OF avail] Suc.prems(2) by blast
  let ?w1 = "w\<lparr>usedWords := insert (Some v) (usedWords w), draws := draws w + 1\<rparr>"
  have av1: "availableWords ?w1 = filter (\<lambda>x. x \<noteq> v) (availableWords w)"
    by (rule availableWords_insert)
  have len1: "k \<le> length (availableWords ?w1)"
    unfolding av1 length_filter_neq [OF dist v] using Suc.prems(3) by simp
  have "\<exists>ws. getRandomWord_times k ?w1 =
             Some (map Some ws, ?w1\<lparr>usedWords := usedWords ?w1 \<union> Some ` set ws, draws := draws ?w1 + k\<rparr>) \<and>
           distinct ws \<and> length ws = k \<and> set ws \<subseteq> set (availableWords ?w1)"
    using Suc.prems(1,2) len1 by (intro Suc.IH) simp_all
  then obtain ws where run: "getRandomWord_times k ?w1 =
             Some (map Some ws, ?w1\<lparr>usedWords := usedWords ?w1 \<union> Some ` set ws, draws := draws ?w1 + k\<rparr>)"
    and ws: "distinct ws" "length ws = k" "set ws \<subseteq> set (availableWords ?w1)"
    by blast
  have sub: "set ws \<subseteq> set (availableWords w) - {v}"
    using ws(3) unfolding av1 by auto
  have "getRandomWord_times (Suc k) w =
          Some (Some v # map Some ws,
                ?w1\<lparr>usedWords := usedWords ?w1 \<union> Some ` set ws, draws := draws ?w1 + k\<rparr>)"
    unfolding getRandomWord_times.simps call option.case prod.case run by simp
  also have "?w1\<lparr>usedWords := usedWords ?w1 \<union> Some ` set ws, draws := draws ?w1 + k\<rparr> =
          w\<lparr>usedWords := usedWords w \<union> Some ` set (v # ws), draws := draws w + Suc k\<rparr>"
    by simp
  finally have "getRandomWord_times (Suc k) w =
          Some (map Some (v # ws),
                w\<lparr>usedWords := usedWords w \<union> Some ` set (v # ws), draws := draws w + Suc k\<rparr>)"
    by simp
  moreover have "distinct (v # ws)" using ws(1) sub by auto
  moreover have "length (v # ws) = Suc k" using ws(2) by simp
  moreover have "set (v # ws) \<subseteq> set (availableWords w)" using v sub by auto
  ultimately show ?case by blast
qed


lemma pool_facts:
  "length (allWords initWordList) = 30" "distinct (allWords initWordList)"
  by (simp_all add: allWords_def initWordList_def)

lemma cycle_from_empty:
  assumes pool: "wordList w = initWordList"
    and fresh: "usedWords w = {}"
    and contract: "\<forall>i. 0 \<le> random w i \<and> random w i < 1"
  shows "length (allWords initWordList) = 30 \<and> distinct (allWords initWordList) \<and>
         (\<exists>ws w'. getRandomWord_times 30 w = Some (map Some ws, w') \<and>
            length ws = 30 \<and> distinct ws \<and> set ws = set (allWords initWordList) \<and>
            usedWords w' = Some ` set ws \<and>
            (\<exists>v w''. getRandomWord w' = Some (Some v, w'') \<and> v \<in> set ws \<and>
                      usedWords w'' = {Some v}))"
proof -
  let ?pool = "allWords initWordList"
  have av: "availableWords w = ?pool"
    using pool fresh by (simp add: availableWords_def)
  have "\<exists>ws. getRandomWord_times 30 w =
             Some (map Some ws, w\<lparr>usedWords := usedWords w \<union> Some ` set ws, draws := draws w + 30\<rparr>) \<and>
           distinct ws \<and> length ws = 30 \<and> set ws \<subseteq> set (availableWords w)"
    using pool contract by (intro getRandomWord_times_distinct) (simp_all add: pool_facts av)
  then obtain ws where run: "getRandomWord_times 30 w =
             Some (map Some ws, w\<lparr>usedWords := usedWords w \<union> Some ` set ws, draws := draws w + 30\<rparr>)"
    and ws: "distinct ws" "length ws = 30" "set ws \<subseteq> set ?pool"
    unfolding av by blast
  let ?w' = "w\<lparr>usedWords := usedWords w \<union> Some ` set ws, draws := draws w + 30\<rparr>"
  have "card (set ws) = card (set ?pool)"
    using ws(1,2) pool_facts by (simp add: distinct_card)
  then have eq: "set ws = set ?pool"
    using ws(3) by (intro card_subset_eq) simp_all
  have used: "usedWords ?w' = Some ` set ws" using fresh by simp
  have "availableWords ?w' = []"
    using pool fresh by (simp add: availableWords_def eq filter_empty_conv)
  then have reset: "getRandomWord ?w' = getRandomWord (?w'\<lparr>usedWords := {}\<rparr>)"
    by (rule getRandomWord_reset)
  have av0: "availableWords (?w'\<lparr>usedWords := {}\<rparr>) = ?pool"
    using pool by (simp add: availableWords_def)
  have ne0: "availableWords (?w'\<lparr>usedWords := {}\<rparr>) \<noteq> []"
    unfolding av0 using pool_facts(1) by auto
  have r0: "0 \<le> random (?w'\<lparr>usedWords := {}\<rparr>) (draws (?w'\<lparr>usedWords := {}\<rparr>))"
    "random (?w'\<lparr>usedWords := {}\<rparr>) (draws (?w'\<lparr>usedWords := {}\<rparr>)) < 1"
    using contract by simp_all
  note getRandomWord_step [OF ne0 r0]
  then obtain v where v: "v \<in> set ?pool"
    and last: "getRandomWord ?w' =
             Some (Some v, (?w'\<lparr>usedWords := {}\<rparr>)\<lparr>usedWords := insert (Some v) (usedWords (?w'\<lparr>usedWords := {}\<rparr>)),
                     draws := draws (?w'\<lparr>usedWords := {}\<rparr>) + 1\<rparr>)"
    unfolding av0 reset by blast
  have vws: "v \<in> set ws" using v eq by simp
  have "usedWords ((?w'\<lparr>usedWords := {}\<rparr>)\<lparr>usedWords := insert (Some v) (usedWords (?w'\<lparr>usedWords := {}\<rparr>)),
                     draws := draws (?w'\<lparr>usedWords := {}\<rparr>) + 1\<rparr>) = {Some v}"
    by simp
  with last vws
  have "\<exists>v w''. getRandomWord ?w' = Some (Some v, w'') \<and> v \<in> set ws \<and> usedWords w'' = {Some v}"
    by blast
  with run ws used eq show ?thesis
    using pool_facts by blast
qed

lemma getRandomWord_times_snoc:
  assumes "getRandomWord_times n w = Some (ws, w')" and "getRandomWord w' = Some (x, w'')"
  shows "getRandomWord_times (Suc n) w = Some (ws @ [x], w'')"
  using assms
proof (induction n arbitrary: w ws)
  case 0
  then show ?case by simp
next
  case (Suc n)
  obtain y w1 where first: "getRandomWord w = Some (y, w1)"
    using Suc.prems(1) by (auto split: option.splits)
  obtain ys where rest: "getRandomWord_times n w1 = Some (ys, w')" and ws: "ws = y # ys"
    using Suc.prems(1) first by (auto split: option.splits)
  have "getRandomWord_times (Suc n) w1 = Some (ys @ [x], w'')"
    using rest Suc.prems(2) by (rule Suc.IH)
  then show ?case
    unfolding getRandomWord_times.simps(2) [of "Suc n" w] first option.case prod.case ws by simp
qed

lemma first_call:
  "getRandomWord first_call_world = Some (Some [0x592A, 0x9633], second_call_world)"
  by (subst getRandomWord.simps)
     (simp add: first_call_world_def second_call_world_def GameManager_new_def availableWords_def
        allWords_def initWordList_def js_at_def Math_random_def Let_def)

lemma second_call_repeats:
  "\<exists>ws w'. getRandomWord_times 30 second_call_world = Some (ws, w') \<and> \<not> distinct ws"
proof -
  let ?w = second_call_world
  let ?pool = "allWords initWordList"
  have wl: "wordList ?w = initWordList"
    by (simp add: second_call_world_def first_call_world_def GameManager_new_def)
  have used: "usedWords ?w = {Some [0x592A, 0x9633]}"
    by (simp add: second_call_world_def)
  have contract: "\<forall>i. 0 \<le> random ?w i \<and> random ?w i < 1"
    by (simp add: second_call_world_def first_call_world_def GameManager_new_def)
  have av: "availableWords ?w = filter (\<lambda>x. x \<noteq> [0x592A, 0x9633]) ?pool"
    by (simp add: availableWords_def wl used)
  have dist_av: "distinct (availableWords ?w)" and len_av: "length (availableWords ?w) = 29"
    unfolding av by (simp_all add: allWords_def initWordList_def)
  have "\<exists>ws. getRandomWord_times 29 ?w =
             Some (map Some ws, ?w\<lparr>usedWords := usedWords ?w \<union> Some ` set ws, draws := draws ?w + 29\<rparr>) \<and>
           distinct ws \<and> length ws = 29 \<and> set ws \<subseteq> set (availableWords ?w)"
    using contract by (intro getRandomWord_times_distinct) (simp_all add: wl pool_facts len_av)
  then obtain ws where run: "getRandomWord_times 29 ?w =
             Some (map Some ws, ?w\<lparr>usedWords := usedWords ?w \<union> Some ` set ws, draws := draws ?w + 29\<rparr>)"
    and ws: "distinct ws" "length ws = 29" "set ws \<subseteq> set (availableWords ?w)"
    by blast
  let ?w29 = "?w\<lparr>usedWords := usedWords ?w \<union> Some ` set ws, draws := draws ?w + 29\<rparr>"
  have "card (set ws) = card (set (availableWords ?w))"
    using ws(1,2) dist_av len_av by (simp add: distinct_card)
  then have eq: "set ws = set (availableWords ?w)"
    using ws(3) by (intro card_subset_eq) simp_all
  have none: "availableWords ?w29 = []"
    by (auto simp: availableWords_def wl used eq av filter_empty_conv)
  have av0: "availableWords (?w29\<lparr>usedWords := {}\<rparr>) = ?pool"
    by (simp add: availableWords_def wl)
  then have ne0: "availableWords (?w29\<lparr>usedWords := {}\<rparr>) \<noteq> []"
    using pool_facts(1) by auto
  have draw: "random (?w29\<lparr>usedWords := {}\<rparr>) (draws (?w29\<lparr>usedWords := {}\<rparr>)) = 1/2"
    by (simp add: second_call_world_def first_call_world_def GameManager_new_def)
  have idx: "js_at ?pool \<lfloor>(1/2 :: real) * real (length ?pool)\<rfloor> = Some [0x4E66]"
    by (simp add: allWords_def initWordList_def js_at_def)
  have "getRandomWord ?w29 = getRandomWord (?w29\<lparr>usedWords := {}\<rparr>)"
    using none by (rule getRandomWord_reset)
  also note getRandomWord_pick [OF ne0]
  finally obtain w30 where last: "getRandomWord ?w29 = Some (Some [0x4E66], w30)"
    unfolding av0 draw idx by blast
  have all: "getRandomWord_times 30 ?w = Some (map Some ws @ [Some [0x4E66]], w30)"
    using getRandomWord_times_snoc [OF run last] by simp
  have "[0x4E66] \<in> set ws"
    unfolding eq av by (simp add: allWords_def initWordList_def)
  then have "\<not> distinct (map Some ws @ [Some [0x4E66]])" by auto
  with all show ?thesis by blast
qed

text \<open>
  C2, as the code has it. The pool of the code is 30 distinct words. At the start of a
  cycle, that is with \<open>usedWords\<close> empty (as the constructor leaves it) or with no candidate
  left (the call then clears \<open>usedWords\<close> first), and whatever numbers in [0, 1)
  \<open>Math.random()\<close> returns, 30 successive calls of \<open>getRandomWord()\<close> return the 30 words of
  the pool, each once, and leave exactly these in \<open>usedWords\<close>; the next call clears
  \<open>usedWords\<close> and returns a word of the pool, one picked before, which is then the only
  element of \<open>usedWords\<close>.
\<close>

theorem getRandomWord_exhaustion_cycle:
  assumes pool: "wordList w = initWordList"
    and start: "usedWords w = {} \<or> availableWords w = []"
    and contract: "\<forall>i. 0 \<le> random w i \<and> random w i < 1"
  shows "length (allWords initWordList) = 30 \<and> distinct (allWords initWordList) \<and>
         (\<exists>ws w'. getRandomWord_times 30 w = Some (map Some ws, w') \<and>
            length ws = 30 \<and> distinct ws \<and> set ws = set (allWords initWordList) \<and>
            usedWords w' = Some ` set ws \<and>
            (\<exists>v w''. getRandomWord w' = Some (Some v, w'') \<and> v \<in> set ws \<and>
                      usedWords w'' = {Some v}))"
proof (cases "availableWords w = []")
  case True
  have first: "getRandomWord w = getRandomWord (w\<lparr>usedWords := {}\<rparr>)"
    using True by (rule getRandomWord_reset)
  have "getRandomWord_times 30 w = getRandomWord_times (Suc 29) w" by simp
  also have "\<dots> = getRandomWord_times (Suc 29) (w\<lparr>usedWords := {}\<rparr>)"
    unfolding getRandomWord_times.simps first ..
  also have "\<dots> = getRandomWord_times 30 (w\<lparr>usedWords := {}\<rparr>)" by simp
  finally have same: "getRandomWord_times 30 w = getRandomWord_times 30 (w\<lparr>usedWords := {}\<rparr>)" .
  have "wordList (w\<lparr>usedWords := {}\<rparr>) = initWordList"
    and "usedWords (w\<lparr>usedWords := {}\<rparr>) = {}"
    and "\<forall>i. 0 \<le> random (w\<lparr>usedWords := {}\<rparr>) i \<and> random (w\<lparr>usedWords := {}\<rparr>) i < 1"
    using pool contract by simp_all
  from cycle_from_empty [OF this] show ?thesis unfolding same .
next
  case False
  with start have "usedWords w = {}" by simp
  with pool contract show ?thesis by (intro cycle_from_empty)
qed

theorem getRandomWord_exhaustion_cycle_witness:
  "(\<exists>ws w'. getRandomWord_times 30 (example_world blank_canvas None (1/2)) = Some (map Some ws, w') \<and>
      length ws = 30 \<and> distinct ws \<and> set ws = set (allWords initWordList) \<and>
      usedWords w' = Some ` set ws \<and>
      (\<exists>v w''. getRandomWord w' = Some (Some v, w'') \<and> v \<in> set ws \<and> usedWords w'' = {Some v})) \<and>
   (\<exists>ws w'. getRandomWord_times 30 exhausted_world = Some (map Some ws, w') \<and>
      length ws = 30 \<and> distinct ws \<and> set ws = set (allWords initWordList) \<and>
      usedWords w' = Some ` set ws \<and>
      (\<exists>v w''. getRandomWord w' = Some (Some v, w'') \<and> v \<in> set ws \<and> usedWords w'' = {Some v}))"
proof -
  have "wordList (example_world blank_canvas None (1/2)) = initWordList"
    and "usedWords (example_world blank_canvas None (1/2)) = {} \<or>
         availableWords (example_world blank_canvas None (1/2)) = []"
    and "\<forall>i. 0 \<le> random (example_world blank_canvas None (1/2)) i \<and>
             random (example_world blank_canvas None (1/2)) i < 1"
    by (simp_all add: world_eval)
  note a = getRandomWord_exhaustion_cycle [OF this]
  have "wordList exhausted_world = initWordList"
    and "usedWords exhausted_world = {} \<or> availableWords exhausted_world = []"
    and "\<forall>i. 0 \<le> random exhausted_world i \<and> random exhausted_world i < 1"
    by (simp_all add: exhausted_world_def world_eval availableWords_def filter_empty_conv)
  note b = getRandomWord_exhaustion_cycle [OF this]
  from a b show ?thesis by blast
qed

text \<open>
  C2 as stated, for any 30 successive calls, fails in the middle of a cycle. From the
  constructed state the first call, drawing 0, returns the first word of the pool; the 30
  calls that follow, each drawing 1/2, return the 29 other words and then, after the reset,
  the sixteenth word of the pool a second time.
\<close>

theorem successive_calls_counterexample:
  "getRandomWord first_call_world = Some (Some [0x592A, 0x9633], second_call_world) \<and>
   getRandomWord_times 30 second_call_world \<noteq> None \<and>
   \<not> distinct (fst (the (getRandomWord_times 30 second_call_world)))"
  using first_call second_call_repeats by auto

lemma getRandomWord_result:
  assumes "allWords (wordList w) \<noteq> []"
  shows "let w0 = (if availableWords w = [] then w\<lparr>usedWords := {}\<rparr> else w);
             word = js_at (availableWords w0)
                      \<lfloor>random w (draws w) * real (length (availableWords w0))\<rfloor>
         in availableWords w0 \<noteq> [] \<and>
            (availableWords w = [] \<longrightarrow> availableWords w0 = allWords (wordList w)) \<and>
            getRandomWord w =
              Some (word, w0\<lparr>usedWords := insert word (usedWords w0), draws := draws w + 1\<rparr>)"
proof (cases "availableWords w = []")
  case True
  have av0: "availableWords (w\<lparr>usedWords := {}\<rparr>) = allWords (wordList w)"
    by (rule availableWords_reset)
  then have ne: "availableWords (w\<lparr>usedWords := {}\<rparr>) \<noteq> []" using assms by simp
  have "getRandomWord w = getRandomWord (w\<lparr>usedWords := {}\<rparr>)"
    using True by (rule getRandomWord_reset)
  also note getRandomWord_pick [OF ne]
  finally show ?thesis using True ne av0 by (simp add: Let_def)
next
  case False
  then show ?thesis using getRandomWord_pick [OF False] by (simp add: Let_def)
qed

text \<open>
  C9. The pool of the code is not empty, and with a non-empty pool \<open>getRandomWord()\<close>
  returns from every state. Where no
  candidate is left it clears \<open>usedWords\<close> and calls itself once: the candidates are then the
  whole pool, and the word is picked among them by the one number drawn; otherwise the word is
  picked at once.
\<close>

theorem getRandomWord_terminates:
  assumes "allWords (wordList w) \<noteq> []"
  shows "allWords initWordList \<noteq> [] \<and>
         (let w0 = (if availableWords w = [] then w\<lparr>usedWords := {}\<rparr> else w);
              word = js_at (availableWords w0)
                       \<lfloor>random w (draws w) * real (length (availableWords w0))\<rfloor>
          in availableWords w0 \<noteq> [] \<and>
             (availableWords w = [] \<longrightarrow> availableWords w0 = allWords (wordList w)) \<and>
             getRandomWord w =
               Some (word, w0\<lparr>usedWords := insert word (usedWords w0), draws := draws w + 1\<rparr>))"
  using getRandomWord_result [OF assms] pool_facts(1) by auto

theorem getRandomWord_terminates_witness:
  "(\<exists>w'. getRandomWord (example_world blank_canvas None (1/2)) = Some (Some [0x4E66], w')) \<and>
   availableWords exhausted_world = [] \<and>
   (\<exists>w'. getRandomWord exhausted_world = Some (Some [0x4E66], w') \<and>
         usedWords w' = {Some [0x4E66]})"
  using getRandomWord_terminates [of "example_world blank_canvas None (1/2)"]
        getRandomWord_terminates [of exhausted_world]
  by (simp add: exhausted_world_def world_eval availableWords_def allWords_def initWordList_def
        js_at_def Let_def)

section \<open>Scoring and the round\<close>

lemma scores_entries:
  "\<forall>ev \<in> set scores.
     (success ev, points ev) \<in> {(True, 10), (True, 7), (True, 5), (False, 2)} \<and>
     message ev \<noteq> [] \<and> 0 \<le> points ev"
  by (simp add: scores_def)

lemma evaluateDrawing_in_scores:
  assumes "0 \<le> random w (draws w)" and "random w (draws w) < 1"
  shows "\<exists>ev \<in> set scores. evaluateDrawing w = (Some ev, w\<lparr>draws := draws w + 1\<rparr>)"
proof -
  let ?i = "\<lfloor>random w (draws w) * real (length scores)\<rfloor>"
  have "0 < length scores" by (simp add: scores_def)
  then have "0 \<le> ?i \<and> ?i < int (length scores)"
    using assms by (intro floor_index)
  then have "js_at scores ?i = Some (scores ! nat ?i) \<and> scores ! nat ?i \<in> set scores"
    by (intro js_at_in_range) simp_all
  then show ?thesis
    by (auto simp: evaluateDrawing_def Math_random_def)
qed

text \<open>
  C6. For a number in [0, 1) from \<open>Math.random()\<close>, \<open>evaluateDrawing()\<close> draws that one
  number and returns an entry whose success and points are one of (true, 10), (true, 7),
  (true, 5), (false, 2), with a non-empty message and points that are not negative; and
  there are two numbers in [0, 1) for which it returns 10 and 5 points.
\<close>

theorem evaluateDrawing_outcomes:
  "(0 \<le> random w (draws w) \<and> random w (draws w) < 1 \<longrightarrow>
      (\<exists>ev. evaluateDrawing w = (Some ev, w\<lparr>draws := draws w + 1\<rparr>) \<and>
         (success ev, points ev) \<in> {(True, 10), (True, 7), (True, 5), (False, 2)} \<and>
         message ev \<noteq> [] \<and> 0 \<le> points ev)) \<and>
   (\<exists>r1 r2. 0 \<le> r1 \<and> r1 < 1 \<and> 0 \<le> r2 \<and> r2 < 1 \<and>
      map_option points (fst (evaluateDrawing (w\<lparr>random := \<lambda>_. r1\<rparr>))) = Some 10 \<and>
      map_option points (fst (evaluateDrawing (w\<lparr>random := \<lambda>_. r2\<rparr>))) = Some 5)"
proof (intro conjI impI)
  assume "0 \<le> random w (draws w) \<and> random w (draws w) < 1"
  then obtain ev where "ev \<in> set scores" "evaluateDrawing w = (Some ev, w\<lparr>draws := draws w + 1\<rparr>)"
    using evaluateDrawing_in_scores by blast
  then show "\<exists>ev. evaluateDrawing w = (Some ev, w\<lparr>draws := draws w + 1\<rparr>) \<and>
         (success ev, points ev) \<in> {(True, 10), (True, 7), (True, 5), (False, 2)} \<and>
         message ev \<noteq> [] \<and> 0 \<le> points ev"
    using scores_entries by blast
next
  have a: "map_option points (fst (evaluateDrawing (w\<lparr>random := \<lambda>_. 0\<rparr>))) = Some 10"
    by (simp add: evaluateDrawing_def Math_random_def js_at_def scores_def)
  have b: "map_option points (fst (evaluateDrawing (w\<lparr>random := \<lambda>_. 1/2\<rparr>))) = Some 5"
    by (simp add: evaluateDrawing_def Math_random_def js_at_def scores_def)
  show "\<exists>r1 r2. 0 \<le> r1 \<and> r1 < 1 \<and> 0 \<le> r2 \<and> r2 < 1 \<and>
      map_option points (fst (evaluateDrawing (w\<lparr>random := \<lambda>_. r1\<rparr>))) = Some 10 \<and>
      map_option points (fst (evaluateDrawing (w\<lparr>random := \<lambda>_. r2\<rparr>))) = Some 5"
    using a b by (intro exI [of _ 0] exI [of _ "1/2"]) simp
qed


theorem evaluateDrawing_outcomes_witness:
  "fst (evaluateDrawing (example_world drawn_canvas None (3/4))) = Some (scores ! 3) \<and>
   points (scores ! 3) = 2 \<and> \<not> success (scores ! 3)"
  using evaluateDrawing_outcomes [of "example_world drawn_canvas None (3/4)"]
  by (auto simp: world_eval evaluateDrawing_def Math_random_def js_at_def scores_def)

lemma showResult_effects:
  "showResult ev w =
     w\<lparr>effects := effects w @
        [SetTextContent (ascii ''resultTitle'') (Str (result_title (success ev))),
         SetInnerHTML (ascii ''resultMessage'') (result_html ev (currentWord w)),
         ClassListRemove (ascii ''resultArea'') (ascii ''hidden'')]\<rparr>"
  by (simp add: showResult_def emit_def)







lemma getRandomWord_keeps:
  assumes "allWords (wordList w) \<noteq> []"
  shows "\<exists>word w1. getRandomWord w = Some (word, w1) \<and> score w1 = score w \<and>
           wordList w1 = wordList w"
  using getRandomWord_result [OF assms] by (auto simp: Let_def split: if_splits)

lemma js_at_SomeD: "js_at xs i = Some x \<Longrightarrow> x \<in> set xs"
  by (auto simp: js_at_def split: if_splits)

lemma scores_nonneg: "ev \<in> set scores \<Longrightarrow> 0 \<le> points ev"
  using scores_entries by blast

lemma nextWord_score:
  assumes "allWords (wordList w) \<noteq> []"
  shows "\<exists>w'. nextWord B w = Some w' \<and> wordList w' = wordList w \<and> score w' = score w"
proof -
  obtain word w1 where "getRandomWord w = Some (word, w1)" "score w1 = score w"
    "wordList w1 = wordList w"
    using getRandomWord_keeps [OF assms] by blast
  then show ?thesis
    by (simp add: nextWord_def Let_def updateWordDisplay_def hideResult_def emit_def)
qed

lemma submitAnswer_score:
  "wordList (after (submitAnswer w)) = wordList w \<and>
   score (after (submitAnswer w)) = score w + sum_list (returned_points SubmitAnswer w) \<and>
   0 \<le> sum_list (returned_points SubmitAnswer w)"
proof (cases "passes_guards w")
  case False
  then show ?thesis
    by (auto simp: passes_guards_def submitAnswer_def after_def emit_def)
next
  case True
  obtain e w1 where call: "evaluateDrawing w = (e, w1)" by (cases "evaluateDrawing w")
  then have w1: "w1 = w\<lparr>draws := draws w + 1\<rparr>"
    and e: "e = js_at scores \<lfloor>random w (draws w) * real (length scores)\<rfloor>"
    by (auto simp: evaluateDrawing_def Math_random_def)
  show ?thesis
  proof (cases e)
    case None
    then show ?thesis
      using True call w1 by (simp add: passes_guards_def submitAnswer_def after_def)
  next
    case (Some ev)
    then have "ev \<in> set scores" using e js_at_SomeD [of scores _ ev] by simp
    then have "0 \<le> points ev" by (rule scores_nonneg)
    then show ?thesis
      using True call w1 Some
      by (simp add: passes_guards_def submitAnswer_def after_def Let_def showResult_effects
            updateScore_def emit_def)
  qed
qed

lemma step_score:
  assumes "allWords (wordList w) \<noteq> []"
  shows "\<exists>w'. step B a w = Some w' \<and> wordList w' = wordList w \<and>
           score w' = score w + sum_list (returned_points a w) \<and>
           0 \<le> sum_list (returned_points a w)"
proof (cases a)
  case NextWord
  then show ?thesis using nextWord_score [OF assms, of B] by simp
next
  case SubmitAnswer
  then show ?thesis using submitAnswer_score [of w] by simp
next
  case SkipWord
  then show ?thesis by (simp add: skipWord_def showResult_effects emit_def)
next
  case GetRandomWord
  then show ?thesis using getRandomWord_keeps [OF assms] by auto
next
  case EvaluateDrawing
  then show ?thesis by (simp add: evaluateDrawing_def Math_random_def)
next
  case UpdateWordDisplay
  then show ?thesis by (simp add: updateWordDisplay_def emit_def)
next
  case UpdateScore
  then show ?thesis by (simp add: updateScore_def emit_def)
next
  case (ShowResult ev)
  then show ?thesis by (simp add: showResult_effects)
next
  case HideResult
  then show ?thesis by (simp add: hideResult_def emit_def)
next
  case (CanvasEvent f)
  then show ?thesis by simp
qed

lemma run_score:
  assumes "allWords (wordList w) \<noteq> []"
  shows "\<exists>w'. run B ops w = Some w' \<and> score w' = score w + sum_list (awarded B ops w) \<and>
           score w \<le> score w'"
  using assms
proof (induction ops arbitrary: w)
  case Nil
  then show ?case by simp
next
  case (Cons a ops)
  obtain w1 where st: "step B a w = Some w1" and wl: "wordList w1 = wordList w"
    and sc: "score w1 = score w + sum_list (returned_points a w)"
    and nn: "0 \<le> sum_list (returned_points a w)"
    using step_score [OF Cons.prems, of B a] by blast
  have "allWords (wordList w1) \<noteq> []" using Cons.prems wl by simp
  then obtain w' where r: "run B ops w1 = Some w'"
    and s': "score w' = score w1 + sum_list (awarded B ops w1)" and le: "score w1 \<le> score w'"
    using Cons.IH by blast
  have "run B (a # ops) w = Some w'" using st r by simp
  moreover have "score w' = score w + sum_list (awarded B (a # ops) w)"
    using st sc s' by simp
  moreover have "score w \<le> score w'" using sc nn le by simp
  ultimately show ?case by blast
qed

lemma pool_nonempty: "allWords initWordList \<noteq> []"
  by (simp add: allWords_def initWordList_def)

text \<open>
  C4. The constructor sets \<open>score\<close> to 0. From the constructed state, and from any
  state with a non-empty pool, any sequence of calls of the methods of the GameManager
  and of events on the canvas runs to its end, and \<open>score\<close> is then the
  score before plus the sum of the points that the scoring function returned in the calls of
  \<open>submitAnswer()\<close> that passed both guards; nothing else changes it, and it is never less
  than before.
\<close>

theorem score_is_sum_of_points:
  assumes "allWords (wordList w) \<noteq> []"
  shows "score (GameManager_new cv rnd n es) = 0 \<and>
         (\<exists>w'. run B ops (GameManager_new cv rnd n es) = Some w' \<and>
            score w' = sum_list (awarded B ops (GameManager_new cv rnd n es))) \<and>
         (\<exists>w'. run B ops w = Some w' \<and> score w' = score w + sum_list (awarded B ops w) \<and>
            score w \<le> score w')"
proof -
  have "allWords (wordList (GameManager_new cv rnd n es)) \<noteq> []"
    using pool_nonempty by (simp add: GameManager_new_def)
  from run_score [OF this, of B ops]
  have "\<exists>w'. run B ops (GameManager_new cv rnd n es) = Some w' \<and>
            score w' = sum_list (awarded B ops (GameManager_new cv rnd n es))"
    by (auto simp: GameManager_new_def)
  moreover have "score (GameManager_new cv rnd n es) = 0"
    by (simp add: GameManager_new_def)
  ultimately show ?thesis using run_score [OF assms, of B ops] by blast
qed

theorem score_is_sum_of_points_witness:
  "\<exists>w'. run test_browser example_round (example_world blank_canvas None 0) = Some w' \<and>
      awarded test_browser example_round (example_world blank_canvas None 0) = [10, 10] \<and>
      score w' = 25"
proof -
  have "allWords (wordList (example_world blank_canvas None 0)) \<noteq> []"
    by (simp add: world_eval allWords_def initWordList_def)
  from score_is_sum_of_points [OF this, of _ _ _ _ test_browser example_round]
  obtain w' where "run test_browser example_round (example_world blank_canvas None 0) = Some w'"
    and "score w' = score (example_world blank_canvas None 0) +
           sum_list (awarded test_browser example_round (example_world blank_canvas None 0))"
    by blast
  moreover have "awarded test_browser example_round (example_world blank_canvas None 0) = [10, 10]"
    by (simp add: example_round_def world_eval passes_guards_def blank_canvas_def isEmpty_eval
          evaluateDrawing_def Math_random_def scores_def submitAnswer_def after_def emit_def
          nextWord_def getRandomWord.simps availableWords_def allWords_def initWordList_def
          Let_def clear_def fillRect_def test_browser_def updateWordDisplay_def hideResult_def
          updateScore_def showResult_def skipWord_def ascii_def)
  ultimately show ?thesis by (simp add: world_eval)
qed

text \<open>
  C10. The scoring function does not depend on the canvas: called on a state with another
  canvas it returns the same entry. For two states with the same \<open>currentWord\<close> and
  \<open>score\<close>, the same next number of \<open>Math.random()\<close> and canvases that are both non-empty,
  whatever they hold, \<open>submitAnswer()\<close> ends the same way, leaves the same \<open>score\<close>, does the
  same to the page, and leaves each canvas as it was.
\<close>

theorem submitAnswer_ignores_drawing:
  assumes "currentWord w1 = currentWord w2" and "score w1 = score w2"
    and "random w1 (draws w1) = random w2 (draws w2)"
    and "\<not> isEmpty (canvas w1)" and "\<not> isEmpty (canvas w2)"
  shows "fst (evaluateDrawing w1) = fst (evaluateDrawing w2) \<and>
         score (after (submitAnswer w1)) = score (after (submitAnswer w2)) \<and>
         (\<exists>es. effects (after (submitAnswer w1)) = effects w1 @ es \<and>
               effects (after (submitAnswer w2)) = effects w2 @ es) \<and>
         ((\<exists>s1 s2. submitAnswer w1 = Normal s1 \<and> submitAnswer w2 = Normal s2) \<or>
          (\<exists>s1 s2. submitAnswer w1 = Throw TypeError s1 \<and> submitAnswer w2 = Throw TypeError s2)) \<and>
         canvas (after (submitAnswer w1)) = canvas w1 \<and>
         canvas (after (submitAnswer w2)) = canvas w2 \<and>
         evaluateDrawing (w1\<lparr>canvas := c\<rparr>) =
           (fst (evaluateDrawing w1), (snd (evaluateDrawing w1))\<lparr>canvas := c\<rparr>)"
proof -
  let ?e = "js_at scores \<lfloor>random w1 (draws w1) * real (length scores)\<rfloor>"
  have e1: "evaluateDrawing w1 = (?e, w1\<lparr>draws := draws w1 + 1\<rparr>)"
    by (simp add: evaluateDrawing_def Math_random_def)
  have e2: "evaluateDrawing w2 = (?e, w2\<lparr>draws := draws w2 + 1\<rparr>)"
    using assms(3) by (simp add: evaluateDrawing_def Math_random_def)
  have e3: "evaluateDrawing (w1\<lparr>canvas := c\<rparr>) =
           (fst (evaluateDrawing w1), (snd (evaluateDrawing w1))\<lparr>canvas := c\<rparr>)"
    by (simp add: evaluateDrawing_def Math_random_def)
  show ?thesis
  proof (cases "falsy (currentWord w1)")
    case True
    then show ?thesis
      using assms e1 e2 e3 by (simp add: submitAnswer_def after_def emit_def)
  next
    case False
    show ?thesis
    proof (cases ?e)
      case None
      then show ?thesis
        using False assms e1 e2 e3 by (simp add: submitAnswer_def after_def)
    next
      case (Some ev)
      then show ?thesis
        using False assms e1 e2 e3
        by (simp add: submitAnswer_def after_def Let_def showResult_effects updateScore_def emit_def)
    qed
  qed
qed


theorem submitAnswer_ignores_drawing_witness:
  "score (after (submitAnswer (example_world drawn_canvas (Some [0x732B]) 0))) = 15 \<and>
   score (after (submitAnswer (example_world scribbled_canvas (Some [0x732B]) 0))) = 15 \<and>
   effects (after (submitAnswer (example_world drawn_canvas (Some [0x732B]) 0))) =
     effects (after (submitAnswer (example_world scribbled_canvas (Some [0x732B]) 0))) \<and>
   canvas (after (submitAnswer (example_world scribbled_canvas (Some [0x732B]) 0))) =
     scribbled_canvas"
  using submitAnswer_ignores_drawing [of "example_world drawn_canvas (Some [0x732B]) 0"
          "example_world scribbled_canvas (Some [0x732B]) 0"] canvases
  by (auto simp: world_eval submitAnswer_def after_def evaluateDrawing_def Math_random_def
        js_at_def scores_def Let_def updateScore_def showResult_def emit_def)

end
